theory Spec2Isabelle
  imports Complex_Main
begin

section \<open>Numbers\<close>

text \<open>
  The controller computes with two kinds of numbers. Money and shares are \<^verbatim>\<open>BigNumber\<close>
  values (bignumber.js): arbitrary-precision decimals, read here as rationals, with the
  non-finite results of a division kept apart. The one expression \<^verbatim>\<open>1 - userRedeemProfitPercent\<close>
  of \<^verbatim>\<open>fetchPerformance\<close> is a subtraction of JavaScript Numbers, that is of IEEE 754
  doubles; a double is read as the rational it denotes.
\<close>

subsection \<open>JavaScript Numbers\<close>

text \<open>Rounding to the nearest integer, a tie going to the even one (the IEEE default).\<close>

definition round_half_even :: "rat \<Rightarrow> int" where
  "round_half_even x =
     (let f = \<lfloor>x\<rfloor>; d = x - of_int f
      in if d < 1 / 2 then f else if 1 / 2 < d then f + 1 else if even f then f else f + 1)"

text \<open>
  \<open>binade n x e\<close> scales a positive \<open>x\<close> by powers of two until it lies in
  \<open>[2^52, 2^53)\<close>, the range of a 53-bit significand, and keeps count in \<open>e\<close>; it stops at
  the exponent \<open>-1074\<close> of the subnormal doubles. \<open>n\<close> bounds the number of steps.
\<close>

fun binade :: "nat \<Rightarrow> rat \<Rightarrow> int \<Rightarrow> rat \<times> int" where
  "binade 0 x e = (x, e)"
| "binade (Suc n) x e =
     (if x < 2 ^ 52 \<and> - 1074 < e then binade n (2 * x) (e - 1)
      else if 2 ^ 53 \<le> x then binade n (x / 2) (e + 1)
      else (x, e))"

definition pow2 :: "int \<Rightarrow> rat" where
  "pow2 e = (if 0 \<le> e then 2 ^ nat e else 1 / 2 ^ nat (- e))"

text \<open>
  The double nearest to a rational (round to nearest, ties to even), for a rational within
  the range of the finite doubles. It is what \<^verbatim>\<open>ToNumber\<close> makes of a decimal string and
  what an arithmetic operation makes of its exact result.
\<close>

definition fl53 :: "rat \<Rightarrow> rat" where
  "fl53 x =
     (if x = 0 then 0
      else (case binade 2200 \<bar>x\<bar> 0 of
              (m, e) \<Rightarrow> sgn x * of_int (round_half_even m) * pow2 e))"

text \<open>\<^verbatim>\<open>a - b\<close> on Numbers: the exact difference, rounded.\<close>

definition number_minus :: "rat \<Rightarrow> rat \<Rightarrow> rat" where
  "number_minus a b = fl53 (fl53 a - fl53 b)"

text \<open>
  \<^verbatim>\<open>Number::toString\<close>, which is how \<^verbatim>\<open>new BigNumber(n)\<close> reads a Number that is not
  an integer: the decimal with the fewest significant digits that converts back to the
  same double, the closest one if there are two, the one with the even last digit if they
  are equally close. \<open>decade\<close> finds the decimal exponent \<open>n\<close> with
  \<open>10^(n-1) \<le> d < 10^n\<close>; \<open>shortest\<close> tries \<open>k = 1, 2, ...\<close> digits, the two
  \<open>k\<close>-digit decimals \<open>s * 10^(n-k)\<close> and \<open>(s + 1) * 10^(n-k)\<close> around \<open>d\<close> each time.
\<close>

fun decade :: "nat \<Rightarrow> rat \<Rightarrow> int \<Rightarrow> int" where
  "decade 0 x n = n"
| "decade (Suc k) x n =
     (if x < 1 / 10 then decade k (10 * x) (n - 1)
      else if 1 \<le> x then decade k (x / 10) (n + 1)
      else n)"

definition pow10 :: "int \<Rightarrow> rat" where
  "pow10 e = (if 0 \<le> e then 10 ^ nat e else 1 / 10 ^ nat (- e))"

definition round_trip :: "rat \<Rightarrow> rat \<Rightarrow> int \<Rightarrow> rat option" where
  "round_trip d scale s =
     (let lo = of_int s * scale; hi = of_int (s + 1) * scale
      in case (fl53 lo = d, fl53 hi = d) of
           (True, True) \<Rightarrow>
             Some (if d - lo < hi - d then lo
                   else if hi - d < d - lo then hi
                   else if even s then lo else hi)
         | (True, False) \<Rightarrow> Some lo
         | (False, True) \<Rightarrow> Some hi
         | (False, False) \<Rightarrow> None)"

fun shortest :: "nat \<Rightarrow> nat \<Rightarrow> rat \<Rightarrow> int \<Rightarrow> rat" where
  "shortest 0 k d n = d"
| "shortest (Suc fuel) k d n =
     (case round_trip d (pow10 (n - int k)) \<lfloor>d / pow10 (n - int k)\<rfloor> of
        Some c \<Rightarrow> c
      | None \<Rightarrow> shortest fuel (Suc k) d n)"

definition bignumber_of_number :: "rat \<Rightarrow> rat" where
  "bignumber_of_number d =
     (if d = 0 then 0 else sgn d * shortest 17 1 \<bar>d\<bar> (decade 400 \<bar>d\<bar> 0))"

subsection \<open>BigNumber\<close>

text \<open>
  \<^verbatim>\<open>times\<close> and \<^verbatim>\<open>minus\<close> are exact on finite values, so they are \<open>*\<close> and \<open>-\<close> on
  \<open>rat\<close>. \<^verbatim>\<open>dividedBy\<close> rounds its quotient to \<^verbatim>\<open>DECIMAL_PLACES = 20\<close> places with
  \<^verbatim>\<open>ROUNDING_MODE = ROUND_HALF_UP\<close> (the library's defaults; a tie goes away from zero),
  and a zero divisor raises nothing: the result is \<^verbatim>\<open>NaN\<close> for a zero dividend and an
  infinity with the dividend's sign otherwise (the zero a \<^verbatim>\<open>minus\<close> returns is \<open>+0\<close>).
\<close>

datatype bignumber = Finite rat | PosInfinity | NegInfinity | NaN

definition round_half_up :: "rat \<Rightarrow> int" where
  "round_half_up x = (if 0 \<le> x then \<lfloor>x + 1 / 2\<rfloor> else - \<lfloor>- x + 1 / 2\<rfloor>)"

definition round_dp :: "nat \<Rightarrow> rat \<Rightarrow> rat" where
  "round_dp dp x = of_int (round_half_up (x * 10 ^ dp)) / 10 ^ dp"

definition dividedBy :: "rat \<Rightarrow> rat \<Rightarrow> bignumber" where
  "dividedBy x y =
     (if y = 0 then (if x = 0 then NaN else if 0 < x then PosInfinity else NegInfinity)
      else Finite (round_dp 20 (x / y)))"

fun times_bn :: "bignumber \<Rightarrow> rat \<Rightarrow> bignumber" where
  "times_bn (Finite x) y = Finite (x * y)"
| "times_bn PosInfinity y = (if y = 0 then NaN else if 0 < y then PosInfinity else NegInfinity)"
| "times_bn NegInfinity y = (if y = 0 then NaN else if 0 < y then NegInfinity else PosInfinity)"
| "times_bn NaN y = NaN"

text \<open>Decimal digits of a natural number.\<close>

fun digits :: "nat \<Rightarrow> string" where
  "digits n =
     (if n < 10 then [''0123456789'' ! n]
      else digits (n div 10) @ [''0123456789'' ! (n mod 10)])"

declare digits.simps [simp del]

text \<open>
  \<^verbatim>\<open>toFixed(dp)\<close> for \<open>dp > 0\<close>: the value rounded to \<open>dp\<close> places (half up), in normal
  notation with exactly \<open>dp\<close> digits after the point, and a minus sign for every negative
  value, also when it rounds to zero. A non-finite value gives its name.
\<close>

definition pad_left :: "nat \<Rightarrow> string \<Rightarrow> string" where
  "pad_left n s = replicate (n - length s) CHR ''0'' @ s"

fun toFixed :: "nat \<Rightarrow> bignumber \<Rightarrow> string" where
  "toFixed dp (Finite x) =
     (let n = nat (round_half_up (\<bar>x\<bar> * 10 ^ dp))
      in (if x < 0 then ''-'' else '''') @ digits (n div 10 ^ dp) @ ''.'' @
         pad_left dp (digits (n mod 10 ^ dp)))"
| "toFixed dp PosInfinity = ''Infinity''"
| "toFixed dp NegInfinity = ''-Infinity''"
| "toFixed dp NaN = ''NaN''"

section \<open>The store\<close>

text \<open>
  The tables the controller reads and writes, as lists of rows in insertion order. A
  \<^verbatim>\<open>.first()\<close> query is \<open>find\<close>; a query without it yields the list of all matches.
\<close>

type_synonym ident = nat

datatype status = PENDING_EMAIL_VERIFICATION | PENDING | APPROVED | DECLINED | CANCELED

record user =
  uid :: ident
  twofa :: bool

record fund =
  fid :: ident
  f_name :: string
  f_currencyCode :: string
  f_sharePrice :: rat
  f_updatedAt :: nat

record share =
  s_investmentFundId :: ident
  s_userId :: ident
  s_amount :: rat

record balance =
  bid :: ident
  b_userId :: ident
  b_currencyCode :: string
  b_amount :: rat

record request =
  rid :: ident
  r_investmentFundId :: ident
  r_userId :: ident
  r_type :: string
  r_amount :: "rat option"
  r_requestPercent :: "rat option"
  r_status :: status
  r_refunded :: bool
  r_authenticationToken :: string

text \<open>
  \<open>settings\<close> is the column \<^verbatim>\<open>userRedeemProfitPercent\<close> of the first row of
  \<^verbatim>\<open>investmentFundSettings\<close>, \<open>None\<close> when the table is empty.
\<close>

record db =
  funds :: "fund list"
  shares :: "share list"
  requests :: "request list"
  balances :: "balance list"
  settings :: "rat option"

text \<open>
  What a handler does with its request: it sends a JSON body with status 200, sends a
  failure body with another status, or throws (the error middleware then answers with the
  error's own status, 500 when it has none).
\<close>

datatype error =
    AssertionError string
  | Error string
  | TypeError string
  | CannotCancelRequest
  | CannotPatchRequest
  | InsufficientFunds
  | DatabaseError

datatype 'a reply = Ok 'a | Fail nat string | Throw error

text \<open>\<^verbatim>\<open>CannotCancelRequest\<close> and \<^verbatim>\<open>CannotPatchRequest\<close> carry a numeric code of their own.\<close>

fun code :: "error \<Rightarrow> nat option" where
  "code CannotCancelRequest = Some 48"
| "code CannotPatchRequest = Some 52"
| "code _ = None"

section \<open>fetchPerformance\<close>

record performance =
  p_investmentFundId :: ident
  p_investmentFundName :: string
  p_currencyCode :: string
  p_shares :: rat
  p_profitAmount :: rat
  p_initialInvestment :: rat
  p_investmentValue :: rat
  p_profitPercent :: string

text \<open>
  The query \<^verbatim>\<open>joinEager('[shares,balanceUpdates]').where('shares.userId', userId)
  .andWhere('shares.amount', '>', 0).orderBy('updatedAt', 'asc')\<close>: each fund comes with
  those of its share rows that pass the filter, here the first of them (\<^verbatim>\<open>f.shares[0]\<close>)
  and the rest, and a fund with no such row is not returned.
\<close>

definition eager_shares :: "db \<Rightarrow> ident \<Rightarrow> fund \<Rightarrow> share list" where
  "eager_shares d userId f =
     filter (\<lambda>s. s_investmentFundId s = fid f \<and> s_userId s = userId \<and> 0 < s_amount s) (shares d)"

definition held_funds :: "db \<Rightarrow> ident \<Rightarrow> (fund \<times> share \<times> share list) list" where
  "held_funds d userId =
     List.map_filter
       (\<lambda>f. case eager_shares d userId f of [] \<Rightarrow> None | s # ss \<Rightarrow> Some (f, s, ss))
       (sort_key f_updatedAt (funds d))"

text \<open>The intermediate values of the callback of \<^verbatim>\<open>funds.map\<close>, named as in the source.\<close>

definition userProfitAmount :: "rat \<Rightarrow> rat \<Rightarrow> rat" where
  "userProfitAmount profitAmount userRedeemProfitPercent = profitAmount * userRedeemProfitPercent"

definition fees :: "rat \<Rightarrow> rat \<Rightarrow> rat" where
  "fees profitAmount userRedeemProfitPercent =
     profitAmount * bignumber_of_number (number_minus 1 userRedeemProfitPercent)"

definition investmentValueMinusFees :: "rat \<Rightarrow> rat \<Rightarrow> rat \<Rightarrow> rat \<Rightarrow> rat" where
  "investmentValueMinusFees amount sharePrice profitAmount userRedeemProfitPercent =
     amount * sharePrice - fees profitAmount userRedeemProfitPercent"

definition initialInvestment :: "rat \<Rightarrow> rat \<Rightarrow> rat \<Rightarrow> rat \<Rightarrow> rat" where
  "initialInvestment amount sharePrice profitAmount userRedeemProfitPercent =
     investmentValueMinusFees amount sharePrice profitAmount userRedeemProfitPercent
       - userProfitAmount profitAmount userRedeemProfitPercent"

definition profitPercent :: "rat \<Rightarrow> rat \<Rightarrow> rat \<Rightarrow> rat \<Rightarrow> string" where
  "profitPercent amount sharePrice profitAmount userRedeemProfitPercent =
     toFixed 2
       (times_bn
          (dividedBy (userProfitAmount profitAmount userRedeemProfitPercent)
             (initialInvestment amount sharePrice profitAmount userRedeemProfitPercent))
          100)"

text \<open>
  \<open>calculateTotalProfitAmount\<close> stands for the method of that name of the fund model,
  which is taken as given: it returns the fund-level profit amount for the user, a finite
  \<^verbatim>\<open>BigNumber\<close>.
\<close>

definition performance_of ::
  "(fund \<Rightarrow> ident \<Rightarrow> rat) \<Rightarrow> rat \<Rightarrow> ident \<Rightarrow> fund \<times> share \<times> share list \<Rightarrow> performance"
  where
  "performance_of calculateTotalProfitAmount userRedeemProfitPercent userId fs =
     (case fs of (f, s, ss) \<Rightarrow>
        (let profitAmount = calculateTotalProfitAmount f userId;
             amount = s_amount s
         in \<lparr> p_investmentFundId = fid f,
              p_investmentFundName = f_name f,
              p_currencyCode = f_currencyCode f,
              p_shares = amount,
              p_profitAmount = userProfitAmount profitAmount userRedeemProfitPercent,
              p_initialInvestment =
                initialInvestment amount (f_sharePrice f) profitAmount userRedeemProfitPercent,
              p_investmentValue =
                investmentValueMinusFees amount (f_sharePrice f) profitAmount userRedeemProfitPercent,
              p_profitPercent =
                profitPercent amount (f_sharePrice f) profitAmount userRedeemProfitPercent \<rparr>))"

text \<open>
  \<^verbatim>\<open>performance.sort((a, b) => parseFloat(b.profitAmount) - parseFloat(a.profitAmount))\<close>:
  descending by the profit amount read as the nearest double, entries with equal keys
  keeping their order. Destructuring the settings row throws when the table is empty.
\<close>

definition fetchPerformance ::
  "(fund \<Rightarrow> ident \<Rightarrow> rat) \<Rightarrow> db \<Rightarrow> user \<Rightarrow> performance list reply" where
  "fetchPerformance calculateTotalProfitAmount d u =
     (let fs = held_funds d (uid u)
      in case settings d of
           None \<Rightarrow> Throw (TypeError ''Cannot destructure property userRedeemProfitPercent'')
         | Some userRedeemProfitPercent \<Rightarrow>
             Ok (sort_key (\<lambda>p. - fl53 (p_profitAmount p))
                   (map (performance_of calculateTotalProfitAmount userRedeemProfitPercent (uid u)) fs)))"

section \<open>Writes\<close>

text \<open>
  \<^verbatim>\<open>transaction(knex, async (trx) => ...)\<close> of objection: the callback runs on the
  transaction's view of the store; when it throws, the transaction is rolled back and the
  error is thrown on, otherwise its writes are committed.
\<close>

definition transaction :: "db \<Rightarrow> (db \<Rightarrow> error + 'a \<times> db) \<Rightarrow> (error + 'a) \<times> db" where
  "transaction d callback =
     (case callback d of
        Inl e \<Rightarrow> (Inl e, d)
      | Inr (x, trx) \<Rightarrow> (Inr x, trx))"

text \<open>
  A statement can be rejected by the database for a reason the controller does not see
  (a constraint, a lock that cannot be taken, a lost connection). \<open>faults\<close> says which
  statements of the handler at hand are rejected.
\<close>

record faults =
  insert_fails :: bool
  update_fails :: bool
  debit_fails :: bool
  credit_fails :: bool

definition fresh_id :: "request list \<Rightarrow> ident" where
  "fresh_id rs = Suc (fold max (map rid rs) 0)"

text \<open>\<^verbatim>\<open>insert(...).returning('*')\<close>: the row gets its id from the database and is returned.\<close>

definition insert_request :: "faults \<Rightarrow> request \<Rightarrow> db \<Rightarrow> error + request \<times> db" where
  "insert_request flt r trx =
     (if insert_fails flt then Inl DatabaseError
      else (let row = r\<lparr>rid := fresh_id (requests trx)\<rparr>
            in Inr (row, trx\<lparr>requests := requests trx @ [row]\<rparr>)))"

text \<open>\<^verbatim>\<open>request.$query(trx).update(...).returning('*')\<close>: the row of that id is rewritten.\<close>

definition update_request ::
  "faults \<Rightarrow> request \<Rightarrow> (request \<Rightarrow> request) \<Rightarrow> db \<Rightarrow> error + request \<times> db" where
  "update_request flt r upd trx =
     (if update_fails flt then Inl DatabaseError
      else Inr (upd r, trx\<lparr>requests := map (\<lambda>x. if rid x = rid r then upd x else x) (requests trx)\<rparr>))"

text \<open>
  Modelled from the spec: \<^verbatim>\<open>Balance.remove\<close> and \<^verbatim>\<open>Balance.add\<close>, methods of the balance
  model, which is not among the sources. The debit verifies \<open>amount \<le> currentAmount\<close>,
  fails with \<open>InsufficientFunds\<close> otherwise, and writes \<open>currentAmount - amount\<close>; the
  credit writes \<open>currentAmount + amount\<close>. Both run in the caller's transaction. The row
  they re-read under the lock is the one the handler has just read.
\<close>

definition remove_balance :: "faults \<Rightarrow> balance \<Rightarrow> rat \<Rightarrow> db \<Rightarrow> error + db" where
  "remove_balance flt b amount trx =
     (if debit_fails flt then Inl DatabaseError
      else if b_amount b < amount then Inl InsufficientFunds
      else Inr (trx\<lparr>balances :=
                  map (\<lambda>x. if bid x = bid b then x\<lparr>b_amount := b_amount x - amount\<rparr> else x)
                    (balances trx)\<rparr>))"

definition add_balance :: "faults \<Rightarrow> balance \<Rightarrow> rat \<Rightarrow> db \<Rightarrow> error + db" where
  "add_balance flt b amount trx =
     (if credit_fails flt then Inl DatabaseError
      else Inr (trx\<lparr>balances :=
                  map (\<lambda>x. if bid x = bid b then x\<lparr>b_amount := b_amount x + amount\<rparr> else x)
                    (balances trx)\<rparr>))"

section \<open>subscribeToFund\<close>

text \<open>
  The amount has passed the subscription schema. Inside the transaction the insert and the
  debit are started together (\<^verbatim>\<open>Promise.all\<close>) on the same connection, the insert first.
\<close>

definition subscribeToFund ::
  "faults \<Rightarrow> db \<Rightarrow> user \<Rightarrow> bool \<Rightarrow> ident \<Rightarrow> rat \<Rightarrow> request reply \<times> db" where
  "subscribeToFund flt d u twofaIsVerified id' amount =
     (case find (\<lambda>f. fid f = id') (funds d) of
        None \<Rightarrow> (Fail 404 ''Investment fund not found'', d)
      | Some investmentFund \<Rightarrow>
          (case find (\<lambda>b. b_userId b = uid u \<and> b_currencyCode b = f_currencyCode investmentFund)
                  (balances d) of
             None \<Rightarrow> (Throw (AssertionError ''Balance not found''), d)
           | Some balance \<Rightarrow>
               if twofa u \<and> \<not> twofaIsVerified then (Fail 401 ''Unauthorized'', d)
               else
                 (case transaction d (\<lambda>trx.
                         case insert_request flt
                                \<lparr> rid = 0, r_investmentFundId = fid investmentFund,
                                  r_userId = uid u, r_type = ''subscription'',
                                  r_amount = Some amount, r_requestPercent = None,
                                  r_status = PENDING, r_refunded = False,
                                  r_authenticationToken = [] \<rparr> trx of
                           Inl e \<Rightarrow> Inl e
                         | Inr (request, trx1) \<Rightarrow>
                             (case remove_balance flt balance amount trx1 of
                                Inl e \<Rightarrow> Inl e
                              | Inr trx2 \<Rightarrow> Inr (request, trx2))) of
                    (Inl e, d') \<Rightarrow> (Throw e, d')
                  | (Inr request, d') \<Rightarrow> (Ok request, d'))))"

section \<open>redeemFromFund\<close>

text \<open>
  The route has no schema, so \<^verbatim>\<open>amount\<close> and \<^verbatim>\<open>percent\<close> are whatever the JSON body
  holds: nothing, \<^verbatim>\<open>null\<close>, a boolean, a number, a string (a decimal string such as
  \<^verbatim>\<open>"12.5"\<close> is the usual form of an amount), or an array or object.
  \<^verbatim>\<open>assert(amount || percent, ...)\<close> tests their truthiness: \<^verbatim>\<open>undefined\<close>,
  \<^verbatim>\<open>null\<close>, \<^verbatim>\<open>false\<close>, the number 0 and the empty string are falsy, and every other
  value is truthy, the string \<^verbatim>\<open>"0"\<close> too.
\<close>

datatype json = Undefined | Null | Bool bool | Num rat | Str string | Object

fun truthy :: "json \<Rightarrow> bool" where
  "truthy Undefined = False"
| "truthy Null = False"
| "truthy (Bool b) = b"
| "truthy (Num x) = (x \<noteq> 0)"
| "truthy (Str s) = (s \<noteq> [])"
| "truthy Object = True"

text \<open>
  The insert hands both values to the database, which reads each into a decimal column.
  \<open>column\<close> stands for that reading, which belongs to the schema and is taken as given:
  \<open>Some v\<close> is the value stored (\<open>None\<close> for \<^verbatim>\<open>NULL\<close>), and \<open>None\<close> says that the
  database rejects the value, and with it the insert. The insert runs outside any
  transaction.
\<close>

definition redeemFromFund ::
  "(json \<Rightarrow> rat option option) \<Rightarrow> faults \<Rightarrow> db \<Rightarrow> user \<Rightarrow> bool \<Rightarrow> ident \<Rightarrow> json \<Rightarrow> json \<Rightarrow>
     request reply \<times> db" where
  "redeemFromFund column flt d u twofaIsVerified id' amount percent =
     (if \<not> (truthy amount \<or> truthy percent)
      then (Throw (AssertionError ''Need amount or percent for a redemption request''), d)
      else
        (case find (\<lambda>f. fid f = id') (funds d) of
           None \<Rightarrow> (Fail 404 ''Investment fund not found'', d)
         | Some investmentFund \<Rightarrow>
             if twofa u \<and> \<not> twofaIsVerified then (Fail 401 ''Unauthorized'', d)
             else
               (case column amount of
                  None \<Rightarrow> (Throw DatabaseError, d)
                | Some a \<Rightarrow>
                    (case column percent of
                       None \<Rightarrow> (Throw DatabaseError, d)
                     | Some p \<Rightarrow>
                         (case insert_request flt
                                 \<lparr> rid = 0, r_investmentFundId = fid investmentFund,
                                   r_userId = uid u, r_type = ''redemption'',
                                   r_amount = a, r_requestPercent = p,
                                   r_status = PENDING, r_refunded = False,
                                   r_authenticationToken = [] \<rparr> d of
                            Inl e \<Rightarrow> (Throw e, d)
                          | Inr (request, d') \<Rightarrow> (Ok request, d'))))))"

section \<open>cancelRequest\<close>

text \<open>
  \<open>isCancelable\<close> and \<open>refundable\<close> are getters of the request model, which is
  not among the sources; they are parameters, applied to the request and the fund loaded
  with it (\<^verbatim>\<open>.eager('investmentFund')\<close>).

  The handler reads \<^verbatim>\<open>const { userId } = request\<close> before it tests \<^verbatim>\<open>!request\<close>:
  destructuring \<^verbatim>\<open>undefined\<close> throws a \<^verbatim>\<open>TypeError\<close>, so the test that follows
  only ever sees a request. The same holds for \<^verbatim>\<open>const { currencyCode } = request.investmentFund\<close>.
  The credit of a request that has no amount (a redemption by percent) is rejected.
\<close>

definition destructure :: "string \<Rightarrow> 'a option \<Rightarrow> error + 'a" where
  "destructure property v =
     (case v of
        None \<Rightarrow> Inl (TypeError (''Cannot destructure property '' @ property))
      | Some x \<Rightarrow> Inr x)"

definition cancelRequest ::
  "(request \<Rightarrow> fund option \<Rightarrow> bool) \<Rightarrow> (request \<Rightarrow> fund option \<Rightarrow> bool) \<Rightarrow>
     faults \<Rightarrow> db \<Rightarrow> user \<Rightarrow> ident \<Rightarrow> unit reply \<times> db" where
  "cancelRequest isCancelable refundable flt d u id' =
     (case transaction d (\<lambda>trx.
         (let request = find (\<lambda>r. rid r = id' \<and> r_userId r = uid u) (requests trx)
          in case destructure ''userId'' request of
               Inl e \<Rightarrow> Inl e
             | Inr r \<Rightarrow>
                 if request = None
                 then Inr (Fail 404 ''Investment fund request not found'', trx)
                 else
                   (let investmentFund = find (\<lambda>f. fid f = r_investmentFundId r) (funds trx)
                    in if \<not> isCancelable r investmentFund then Inl CannotCancelRequest
                       else
                         (case destructure ''currencyCode'' investmentFund of
                            Inl e \<Rightarrow> Inl e
                          | Inr f \<Rightarrow>
                              (case find (\<lambda>b. b_userId b = r_userId r \<and>
                                              b_currencyCode b = f_currencyCode f)
                                      (balances trx) of
                                 None \<Rightarrow> Inl (AssertionError ''Balance not found'')
                               | Some balance \<Rightarrow>
                                   (let refundUser = refundable r investmentFund
                                    in case update_request flt r
                                              (\<lambda>x. x\<lparr>r_status := CANCELED, r_refunded := refundUser\<rparr>)
                                              trx of
                                         Inl e \<Rightarrow> Inl e
                                       | Inr (result, trx1) \<Rightarrow>
                                           if refundUser
                                           then (case r_amount result of
                                                   None \<Rightarrow> Inl DatabaseError
                                                 | Some a \<Rightarrow>
                                                     (case add_balance flt balance a trx1 of
                                                        Inl e \<Rightarrow> Inl e
                                                      | Inr trx2 \<Rightarrow> Inr (Ok (), trx2)))
                                           else Inr (Ok (), trx1))))))) of
        (Inl e, d') \<Rightarrow> (Throw e, d')
      | (Inr answer, d') \<Rightarrow> (answer, d'))"

text \<open>
  Modelled from the spec: the two getters as the spec describes them, for use where a
  concrete getter is needed. A request is cancelable while its status is \<open>PENDING\<close>;
  it is refundable when it is a subscription whose amount has not been converted to shares.
\<close>

definition isCancelable_spec :: "request \<Rightarrow> fund option \<Rightarrow> bool" where
  "isCancelable_spec r f = (r_status r = PENDING)"

definition refundable_spec :: "request \<Rightarrow> fund option \<Rightarrow> bool" where
  "refundable_spec r f = (r_type r = ''subscription'' \<and> r_status r = PENDING)"

section \<open>patchInvestmentFundRequest\<close>

text \<open>
  The four ledger movements are methods of the fund model, and \<open>isLocked\<close> is a getter
  of the request model; none is among the sources, so they are parameters. A movement
  takes the fund, the request and the store, and returns the new store or throws.

  The query joins the funds with their requests on \<^verbatim>\<open>requests.id = id\<close> and loads, with
  the first such fund, those of its requests that have this id; \<^verbatim>\<open>[fundRequest]\<close> is the
  first of them.
\<close>

record ledger =
  approveSubscription :: "fund \<Rightarrow> request \<Rightarrow> db \<Rightarrow> error + db"
  declineSubscription :: "fund \<Rightarrow> request \<Rightarrow> db \<Rightarrow> error + db"
  approveRedemption :: "fund \<Rightarrow> request \<Rightarrow> db \<Rightarrow> error + db"
  declineRedemption :: "fund \<Rightarrow> request \<Rightarrow> db \<Rightarrow> error + db"

definition await :: "db \<Rightarrow> error + db \<Rightarrow> unit reply \<times> db" where
  "await d res = (case res of Inl e \<Rightarrow> (Throw e, d) | Inr d' \<Rightarrow> (Ok (), d'))"

definition patchInvestmentFundRequest ::
  "(request \<Rightarrow> bool) \<Rightarrow> ledger \<Rightarrow> db \<Rightarrow> ident \<Rightarrow> status \<Rightarrow> unit reply \<times> db" where
  "patchInvestmentFundRequest isLocked investmentFundModel d id' status =
     (case find (\<lambda>f. \<exists>r \<in> set (requests d). r_investmentFundId r = fid f \<and> rid r = id')
             (funds d) of
        None \<Rightarrow> (Fail 404 ''Not found'', d)
      | Some investmentFund \<Rightarrow>
          (let eager_requests =
                 filter (\<lambda>r. r_investmentFundId r = fid investmentFund \<and> rid r = id') (requests d)
           in if length eager_requests = 0 then (Fail 404 ''Not found'', d)
              else
          case filter (\<lambda>r. rid r = id') eager_requests of
             [] \<Rightarrow> (Throw (TypeError ''Cannot read property isLocked of undefined''), d)
           | fundRequest # _ \<Rightarrow>
               if isLocked fundRequest then (Throw CannotPatchRequest, d)
               else if r_type fundRequest = ''subscription'' \<and> status = APPROVED
                 then await d (approveSubscription investmentFundModel investmentFund fundRequest d)
               else if r_type fundRequest = ''subscription'' \<and> status = DECLINED
                 then await d (declineSubscription investmentFundModel investmentFund fundRequest d)
               else if r_type fundRequest = ''redemption'' \<and> status = APPROVED
                 then await d (approveRedemption investmentFundModel investmentFund fundRequest d)
               else if r_type fundRequest = ''redemption'' \<and> status = DECLINED
                 then await d (declineRedemption investmentFundModel investmentFund fundRequest d)
               else (Throw (Error ''Unknown investment fund request operation''), d)))"

section \<open>activateRequest\<close>

text \<open>
  The query has no \<^verbatim>\<open>.first()\<close>: \<^verbatim>\<open>request\<close> is the array of all matching rows. An
  array, an empty one too, is truthy, so \<^verbatim>\<open>!request\<close> is false; and an array has no
  method \<^verbatim>\<open>$query\<close>, so the call \<^verbatim>\<open>request.$query()\<close> throws a \<^verbatim>\<open>TypeError\<close>.
\<close>

definition array_truthy :: "'a list \<Rightarrow> bool" where
  "array_truthy xs = True"

definition activateRequest :: "db \<Rightarrow> user \<Rightarrow> string \<Rightarrow> unit reply \<times> db" where
  "activateRequest d u authenticationToken =
     (let request =
            filter (\<lambda>r. r_userId r = uid u \<and> r_authenticationToken r = authenticationToken \<and>
                         r_status r = PENDING_EMAIL_VERIFICATION)
              (requests d)
      in if \<not> array_truthy request then (Fail 404 ''Request not found'', d)
         else (Throw (TypeError ''request.$query is not a function''), d))"

section \<open>An example store\<close>

text \<open>
  One fund at share price 2 in which Alice holds 250 shares and Bob 50, and a second fund in
  which Alice has a share row with amount 0. Alice has 1000 USD and one pending
  subscription of 400; Bob has a request awaiting e-mail verification and a canceled one.
\<close>

definition alice :: user where
  "alice = \<lparr> uid = 7, twofa = True \<rparr>"

definition bob :: user where
  "bob = \<lparr> uid = 8, twofa = False \<rparr>"

definition growth_fund :: fund where
  "growth_fund = \<lparr> fid = 1, f_name = ''Growth'', f_currencyCode = ''USD'',
                   f_sharePrice = 2, f_updatedAt = 10 \<rparr>"

definition income_fund :: fund where
  "income_fund = \<lparr> fid = 2, f_name = ''Income'', f_currencyCode = ''USD'',
                   f_sharePrice = 5, f_updatedAt = 20 \<rparr>"

definition alice_subscription :: request where
  "alice_subscription =
     \<lparr> rid = 1, r_investmentFundId = 1, r_userId = 7, r_type = ''subscription'',
       r_amount = Some 400, r_requestPercent = None, r_status = PENDING,
       r_refunded = False, r_authenticationToken = ''tok-a'' \<rparr>"

definition bob_unverified :: request where
  "bob_unverified =
     \<lparr> rid = 2, r_investmentFundId = 1, r_userId = 8, r_type = ''redemption'',
       r_amount = Some 10, r_requestPercent = None, r_status = PENDING_EMAIL_VERIFICATION,
       r_refunded = False, r_authenticationToken = ''tok-b'' \<rparr>"

definition bob_canceled :: request where
  "bob_canceled =
     \<lparr> rid = 3, r_investmentFundId = 1, r_userId = 8, r_type = ''subscription'',
       r_amount = Some 50, r_requestPercent = None, r_status = CANCELED,
       r_refunded = True, r_authenticationToken = ''tok-c'' \<rparr>"

definition example_db :: db where
  "example_db =
     \<lparr> funds = [growth_fund, income_fund],
       shares = [\<lparr> s_investmentFundId = 1, s_userId = 7, s_amount = 250 \<rparr>,
                 \<lparr> s_investmentFundId = 2, s_userId = 7, s_amount = 0 \<rparr>,
                 \<lparr> s_investmentFundId = 1, s_userId = 8, s_amount = 50 \<rparr>],
       requests = [alice_subscription, bob_unverified, bob_canceled],
       balances = [\<lparr> bid = 1, b_userId = 7, b_currencyCode = ''USD'', b_amount = 1000 \<rparr>,
                   \<lparr> bid = 2, b_userId = 8, b_currencyCode = ''USD'', b_amount = 20 \<rparr>],
       settings = Some (3 / 10) \<rparr>"

text \<open>A fund-level profit amount of 100 for every fund and user.\<close>

definition profit_100 :: "fund \<Rightarrow> ident \<Rightarrow> rat" where
  "profit_100 f userId = 100"

definition no_faults :: faults where
  "no_faults = \<lparr> insert_fails = False, update_fails = False, debit_fails = False,
                 credit_fails = False \<rparr>"

text \<open>
  Modelled from the spec: the getter \<open>isLocked\<close> as the spec describes it, for use where
  a concrete getter is needed: a request in a terminal status is locked. \<open>idle_ledger\<close>
  is a ledger whose movements change nothing.
\<close>

definition isLocked_spec :: "request \<Rightarrow> bool" where
  "isLocked_spec r = (r_status r = APPROVED \<or> r_status r = DECLINED \<or> r_status r = CANCELED)"

definition idle_ledger :: ledger where
  "idle_ledger =
     \<lparr> approveSubscription = (\<lambda>f r d. Inr d), declineSubscription = (\<lambda>f r d. Inr d),
       approveRedemption = (\<lambda>f r d. Inr d), declineRedemption = (\<lambda>f r d. Inr d) \<rparr>"

text \<open>
  A reading of body values into a decimal column, for use where a concrete one is needed:
  an absent value and \<^verbatim>\<open>null\<close> are stored as \<^verbatim>\<open>NULL\<close>, a number as it is, a
  non-empty string of decimal digits as the natural number it writes, and everything else
  is rejected.
\<close>

definition digit_value :: "char \<Rightarrow> nat option" where
  "digit_value c = map_of (zip ''0123456789'' [0, 1, 2, 3, 4, 5, 6, 7, 8, 9]) c"

fun natural :: "nat \<Rightarrow> string \<Rightarrow> nat option" where
  "natural acc [] = Some acc"
| "natural acc (c # cs) =
     (case digit_value c of None \<Rightarrow> None | Some v \<Rightarrow> natural (10 * acc + v) cs)"

fun digits_column :: "json \<Rightarrow> rat option option" where
  "digits_column Undefined = Some None"
| "digits_column Null = Some None"
| "digits_column (Num x) = Some (Some x)"
| "digits_column (Str s) =
     (if s = [] then None else map_option (\<lambda>n. Some (of_nat n)) (natural 0 s))"
| "digits_column (Bool b) = None"
| "digits_column Object = None"

section \<open>Evaluation on concrete numbers\<close>

lemma floor_rat_numeral: "\<lfloor>numeral a / numeral b :: rat\<rfloor> = numeral a div numeral b"
  using floor_divide_of_int_eq [of "numeral a" "numeral b", where ?'a = rat] by simp

lemma binade_numeral:
  "binade (numeral k) x e =
     (if x < 2 ^ 52 \<and> - 1074 < e then binade (pred_numeral k) (2 * x) (e - 1)
      else if 2 ^ 53 \<le> x then binade (pred_numeral k) (x / 2) (e + 1)
      else (x, e))"
  by (simp add: numeral_eq_Suc)

lemma decade_numeral:
  "decade (numeral k) x n =
     (if x < 1 / 10 then decade (pred_numeral k) (10 * x) (n - 1)
      else if 1 \<le> x then decade (pred_numeral k) (x / 10) (n + 1)
      else n)"
  by (simp add: numeral_eq_Suc)

lemma shortest_numeral:
  "shortest (numeral f) k d n =
     (case round_trip d (pow10 (n - int k)) \<lfloor>d / pow10 (n - int k)\<rfloor> of
        Some c \<Rightarrow> c
      | None \<Rightarrow> shortest (pred_numeral f) (Suc k) d n)"
  by (simp add: numeral_eq_Suc)

lemmas fl_eval = fl53_def binade_numeral round_half_even_def pow2_def Let_def floor_rat_numeral

lemmas shortest_eval = bignumber_of_number_def decade_numeral shortest_numeral pow10_def
  round_trip_def

lemma fl53_1: "fl53 1 = 1"
  by (simp add: fl_eval)

text \<open>\<^verbatim>\<open>1 - 0.3\<close> is the double that prints as \<^verbatim>\<open>0.7\<close>: the exact difference lies
  halfway between two doubles and the tie goes to that one.\<close>

lemma one_minus_03: "bignumber_of_number (number_minus 1 (3 / 10)) = 7 / 10"
proof -
  have a: "fl53 (3 / 10) = 5404319552844595 / 18014398509481984"
    by (simp add: fl_eval)
  have c: "number_minus 1 (3 / 10) = 3152519739159347 / 4503599627370496"
    unfolding number_minus_def a fl53_1 by (simp add: fl_eval)
  show ?thesis
    unfolding c by (simp add: shortest_eval fl_eval)
qed

text \<open>\<^verbatim>\<open>1 - 0.7\<close> is the double that prints as \<^verbatim>\<open>0.30000000000000004\<close>.\<close>

lemma one_minus_07:
  "bignumber_of_number (number_minus 1 (7 / 10)) = 30000000000000004 / 100000000000000000"
proof -
  have a: "fl53 (7 / 10) = 3152519739159347 / 4503599627370496"
    by (simp add: fl_eval)
  have c: "number_minus 1 (7 / 10) = 1351079888211149 / 4503599627370496"
    unfolding number_minus_def a fl53_1 by (simp add: fl_eval)
  show ?thesis
    unfolding c by (simp add: shortest_eval fl_eval)
qed

lemmas store_eval = example_db_def growth_fund_def income_fund_def alice_def bob_def
  profit_100_def held_funds_def eager_shares_def List.map_filter_simps

lemmas rows_eval = example_db_def growth_fund_def income_fund_def alice_def bob_def
  alice_subscription_def bob_unverified_def bob_canceled_def no_faults_def

lemmas perf_eval = fetchPerformance_def performance_of_def userProfitAmount_def fees_def
  investmentValueMinusFees_def initialInvestment_def profitPercent_def

lemmas fixed_eval = dividedBy_def round_dp_def round_half_up_def digits.simps pad_left_def
  floor_rat_numeral Let_def

section \<open>Properties of fetchPerformance\<close>

lemma held_funds_mem:
  assumes "(f, s, ss) \<in> set (held_funds d userId)"
  shows "f \<in> set (funds d)" and "eager_shares d userId f = s # ss"
  using assms by (auto simp: held_funds_def List.map_filter_def split: list.splits)

lemma eager_shares_first:
  assumes "eager_shares d userId f = s # ss"
  shows "s \<in> set (shares d)" and "s_investmentFundId s = fid f" and "s_userId s = userId"
    and "0 < s_amount s"
proof -
  have "s \<in> set (eager_shares d userId f)"
    using assms by simp
  then show "s \<in> set (shares d)" and "s_investmentFundId s = fid f" and "s_userId s = userId"
    and "0 < s_amount s"
    by (simp_all add: eager_shares_def)
qed

lemma fetchPerformance_Ok:
  assumes "fetchPerformance calc d u = Ok ps"
  obtains r where "settings d = Some r"
    and "set ps = performance_of calc r (uid u) ` set (held_funds d (uid u))"
  using assms by (auto simp: fetchPerformance_def split: option.splits)

lemma entry_fund:
  assumes "fetchPerformance calc d u = Ok ps" and "p \<in> set ps"
  shows "\<exists>f \<in> set (funds d). \<exists>s \<in> set (shares d).
           p_investmentFundId p = fid f \<and> s_investmentFundId s = fid f \<and>
           s_userId s = uid u \<and> 0 < s_amount s \<and> p_shares p = s_amount s"
proof -
  from assms(1) obtain r where
    ps: "set ps = performance_of calc r (uid u) ` set (held_funds d (uid u))"
    by (rule fetchPerformance_Ok)
  with assms(2) obtain f s ss where
    mem: "(f, s, ss) \<in> set (held_funds d (uid u))"
    and p: "p = performance_of calc r (uid u) (f, s, ss)"
    by auto
  note h = held_funds_mem [OF mem]
  note e = eager_shares_first [OF h(2)]
  have "p_investmentFundId p = fid f" and "p_shares p = s_amount s"
    using p by (simp_all add: performance_of_def Let_def)
  with h(1) e show ?thesis
    by blast
qed

text \<open>
  The formulas of the performance computation, for a setting \<open>r\<close> at which the Number
  subtraction \<^verbatim>\<open>1 - r\<close> loses nothing.
\<close>

lemma performance_formulas:
  assumes "bignumber_of_number (number_minus 1 r) = 1 - r"
  shows "userProfitAmount q r = q * r"
    and "fees q r = q * (1 - r)"
    and "investmentValueMinusFees h p q r = h * p - fees q r"
    and "initialInvestment h p q r = investmentValueMinusFees h p q r - userProfitAmount q r"
    and "initialInvestment h p q r \<noteq> 0 \<Longrightarrow>
           profitPercent h p q r =
             toFixed 2 (Finite (round_dp 20 (userProfitAmount q r / initialInvestment h p q r) * 100))"
  using assms
  by (simp_all add: userProfitAmount_def fees_def investmentValueMinusFees_def
      initialInvestment_def profitPercent_def dividedBy_def)

text \<open>
  The scenario of the spec: \<open>userRedeemProfitPercent = 0.3\<close>, profit amount 100, shares
  worth 500 at the current price.
\<close>

lemma performance_scenario:
  "userProfitAmount 100 (3 / 10) = 30 \<and> fees 100 (3 / 10) = 70 \<and>
   investmentValueMinusFees 250 2 100 (3 / 10) = 430 \<and>
   initialInvestment 250 2 100 (3 / 10) = 400 \<and>
   profitPercent 250 2 100 (3 / 10) = ''7.50''"
  by (simp add: perf_eval one_minus_03 fixed_eval)

text \<open>
  C2. The claim: for held shares \<open>h\<close>, share price \<open>p\<close>, profit amount \<open>q\<close> and setting
  \<open>r\<close>, \<^verbatim>\<open>fetchPerformance\<close> returns \<open>userProfit = q * r\<close>, \<open>platformFee = q * (1 - r)\<close>,
  \<open>currentValue = h * p - platformFee\<close>, \<open>initialBasis = currentValue - userProfit\<close>
  and the profit percent to two places. The handler computes \<^verbatim>\<open>1 - userRedeemProfitPercent\<close>
  on Numbers before it enters the decimal arithmetic, so the fee is \<open>q\<close> times the double
  nearest to \<open>1 - r\<close>. At \<open>r = 0.7\<close>, \<open>q = 100\<close> and 250 shares at price 2 the fee is
  \<open>30.000000000000004\<close>, not 30, and the value and the basis returned are
  \<open>469.999999999999996\<close> and \<open>399.999999999999996\<close>, not 470 and 400.
\<close>

theorem fetchPerformance_fee_through_double:
  "fees 100 (7 / 10) = 30000000000000004 / 1000000000000000 \<and>
   fees 100 (7 / 10) \<noteq> 100 * (1 - 7 / 10) \<and>
   fetchPerformance profit_100 (example_db\<lparr>settings := Some (7 / 10)\<rparr>) alice =
     Ok [\<lparr> p_investmentFundId = 1, p_investmentFundName = ''Growth'', p_currencyCode = ''USD'',
           p_shares = 250, p_profitAmount = 70,
           p_initialInvestment = 399999999999999996 / 1000000000000000,
           p_investmentValue = 469999999999999996 / 1000000000000000,
           p_profitPercent = ''17.50'' \<rparr>]"
  by (simp add: perf_eval store_eval one_minus_07 fixed_eval)

text \<open>
  C7, as stated: a performance computation whose initial basis is 0 fails with a
  division-by-zero error. It does not: \<^verbatim>\<open>dividedBy\<close> raises nothing on a zero divisor.
  Bob holds 50 shares at price 2 and the profit amount is 100, so the basis is
  \<open>100 - 70 - 30 = 0\<close>, and the handler answers with an entry whose profit percent is
  \<^verbatim>\<open>Infinity\<close>.
\<close>

theorem fetchPerformance_zero_basis_returns:
  "fetchPerformance profit_100 example_db bob =
     Ok [\<lparr> p_investmentFundId = 1, p_investmentFundName = ''Growth'', p_currencyCode = ''USD'',
           p_shares = 50, p_profitAmount = 30, p_initialInvestment = 0,
           p_investmentValue = 30, p_profitPercent = ''Infinity'' \<rparr>]"
  by (simp add: perf_eval store_eval one_minus_03 fixed_eval)

lemma nonfinite_percent:
  assumes "initialInvestment h p q r = 0"
  shows "profitPercent h p q r =
           (if userProfitAmount q r = 0 then ''NaN''
            else if 0 < userProfitAmount q r then ''Infinity'' else ''-Infinity'')"
  using assms by (simp add: profitPercent_def dividedBy_def)

text \<open>
  C7, amended: whenever the settings row exists the handler answers with the performance
  list, and an entry whose initial basis is 0 carries no error but the profit percent
  \<^verbatim>\<open>NaN\<close> when the user's profit is 0, \<^verbatim>\<open>Infinity\<close> when it is positive and
  \<^verbatim>\<open>-Infinity\<close> when it is negative.
\<close>

theorem fetchPerformance_zero_basis:
  assumes "settings d = Some r"
  shows "\<exists>ps. fetchPerformance calc d u = Ok ps \<and>
           (\<forall>p \<in> set ps. p_initialInvestment p = 0 \<longrightarrow>
              p_profitPercent p =
                (if p_profitAmount p = 0 then ''NaN''
                 else if 0 < p_profitAmount p then ''Infinity'' else ''-Infinity''))"
proof -
  let ?ps = "sort_key (\<lambda>p. - fl53 (p_profitAmount p))
               (map (performance_of calc r (uid u)) (held_funds d (uid u)))"
  have run: "fetchPerformance calc d u = Ok ?ps"
    using assms by (simp add: fetchPerformance_def)
  have "p_profitPercent p =
          (if p_profitAmount p = 0 then ''NaN''
           else if 0 < p_profitAmount p then ''Infinity'' else ''-Infinity'')"
    if "p \<in> set ?ps" and zero: "p_initialInvestment p = 0" for p
  proof -
    from that(1) obtain f s ss where p: "p = performance_of calc r (uid u) (f, s, ss)"
      by auto
    show ?thesis
      using zero unfolding p
      by (simp add: performance_of_def Let_def nonfinite_percent)
  qed
  with run show ?thesis
    by blast
qed

theorem fetchPerformance_zero_basis_witness:
  "settings example_db = Some (3 / 10) \<and>
   (\<exists>p. fetchPerformance profit_100 example_db bob = Ok [p] \<and> p_initialInvestment p = 0 \<and>
      p_profitAmount p = 30 \<and> p_profitPercent p = ''Infinity'')"
proof -
  have s: "settings example_db = Some (3 / 10)"
    by (simp add: example_db_def)
  have run: "fetchPerformance profit_100 example_db bob =
    Ok [\<lparr> p_investmentFundId = 1, p_investmentFundName = ''Growth'', p_currencyCode = ''USD'',
          p_shares = 50, p_profitAmount = 30, p_initialInvestment = 0,
          p_investmentValue = 30, p_profitPercent = ''Infinity'' \<rparr>]"
    by (simp add: perf_eval store_eval one_minus_03 fixed_eval)
  from fetchPerformance_zero_basis [OF s, of profit_100 bob] run
  show ?thesis
    using s by simp
qed

text \<open>
  C10. Every entry of the performance list belongs to a fund in which the requesting user
  has a share row with an amount above 0, and reports that amount; a fund in which every
  share row of the user has amount 0 or less, or in which the user has no share row, has
  no entry.
\<close>

theorem fetchPerformance_only_held_funds:
  assumes "fetchPerformance calc d u = Ok ps"
  shows "(\<forall>p \<in> set ps. \<exists>f \<in> set (funds d). \<exists>s \<in> set (shares d).
            p_investmentFundId p = fid f \<and> s_investmentFundId s = fid f \<and>
            s_userId s = uid u \<and> 0 < s_amount s \<and> p_shares p = s_amount s) \<and>
         (\<forall>f \<in> set (funds d).
            (\<forall>s \<in> set (shares d).
               s_investmentFundId s = fid f \<and> s_userId s = uid u \<longrightarrow> s_amount s \<le> 0) \<longrightarrow>
            (\<forall>p \<in> set ps. p_investmentFundId p \<noteq> fid f))"
proof (intro conjI ballI impI)
  fix p assume "p \<in> set ps"
  with assms show "\<exists>f \<in> set (funds d). \<exists>s \<in> set (shares d).
            p_investmentFundId p = fid f \<and> s_investmentFundId s = fid f \<and>
            s_userId s = uid u \<and> 0 < s_amount s \<and> p_shares p = s_amount s"
    by (rule entry_fund)
next
  fix f p
  assume none: "\<forall>s \<in> set (shares d).
               s_investmentFundId s = fid f \<and> s_userId s = uid u \<longrightarrow> s_amount s \<le> 0"
    and "p \<in> set ps"
  with assms obtain s where "s \<in> set (shares d)"
    and "s_investmentFundId s = p_investmentFundId p" and "s_userId s = uid u" and "0 < s_amount s"
    using entry_fund by metis
  with none show "p_investmentFundId p \<noteq> fid f"
    by force
qed

theorem fetchPerformance_only_held_funds_witness:
  "(\<exists>p. fetchPerformance profit_100 example_db alice = Ok [p] \<and>
      p_investmentFundId p = fid growth_fund \<and> p_investmentFundId p \<noteq> fid income_fund \<and>
      p_shares p = 250) \<and>
   income_fund \<in> set (funds example_db) \<and>
   (\<exists>s \<in> set (shares example_db). s_investmentFundId s = fid growth_fund \<and>
      s_userId s = uid alice \<and> s_amount s = 250)"
proof -
  let ?p = "\<lparr> p_investmentFundId = 1, p_investmentFundName = ''Growth'', p_currencyCode = ''USD'',
           p_shares = 250, p_profitAmount = 30, p_initialInvestment = 400,
           p_investmentValue = 430, p_profitPercent = ''7.50'' \<rparr>"
  have run: "fetchPerformance profit_100 example_db alice = Ok [?p]"
    by (simp add: perf_eval store_eval one_minus_03 fixed_eval)
  note only = fetchPerformance_only_held_funds [OF run]
  have inc: "income_fund \<in> set (funds example_db)"
    by (simp add: example_db_def)
  have "\<forall>s \<in> set (shares example_db).
          s_investmentFundId s = fid income_fund \<and> s_userId s = uid alice \<longrightarrow> s_amount s \<le> 0"
    by (simp add: rows_eval)
  with only inc have absent: "p_investmentFundId ?p \<noteq> fid income_fund"
    by auto
  from only have "\<exists>f \<in> set (funds example_db). \<exists>s \<in> set (shares example_db).
            p_investmentFundId ?p = fid f \<and> s_investmentFundId s = fid f \<and>
            s_userId s = uid alice \<and> 0 < s_amount s \<and> p_shares ?p = s_amount s"
    by simp
  then have held: "\<exists>s \<in> set (shares example_db). s_investmentFundId s = fid growth_fund \<and>
      s_userId s = uid alice \<and> s_amount s = 250"
    by (auto simp: growth_fund_def)
  have "fid growth_fund = 1"
    by (simp add: growth_fund_def)
  with run absent held inc show ?thesis
    by auto
qed

section \<open>Properties of subscribeToFund\<close>

text \<open>
  C1. On an existing fund, with an existing balance and two-factor verified where it is
  required, the insert of the \<open>PENDING\<close> subscription and the debit of its amount stand
  or fall together: when the insert is rejected, when the debit is rejected, and when the
  balance does not cover the amount, the handler throws and the store is what it was (the
  row inserted inside the transaction is gone with it); otherwise the store has both the
  new request and the debited balance.
\<close>

theorem subscribeToFund_atomic:
  assumes "find (\<lambda>f. fid f = id') (funds d) = Some f"
    and "find (\<lambda>b. b_userId b = uid u \<and> b_currencyCode b = f_currencyCode f) (balances d) = Some b"
    and "twofa u \<longrightarrow> twofaIsVerified"
  shows "subscribeToFund flt d u twofaIsVerified id' amount =
           (if insert_fails flt then (Throw DatabaseError, d)
            else if debit_fails flt then (Throw DatabaseError, d)
            else if b_amount b < amount then (Throw InsufficientFunds, d)
            else (Ok \<lparr> rid = fresh_id (requests d), r_investmentFundId = fid f,
                       r_userId = uid u, r_type = ''subscription'', r_amount = Some amount,
                       r_requestPercent = None, r_status = PENDING, r_refunded = False,
                       r_authenticationToken = [] \<rparr>,
                  d\<lparr>requests := requests d @
                        [\<lparr> rid = fresh_id (requests d), r_investmentFundId = fid f,
                           r_userId = uid u, r_type = ''subscription'', r_amount = Some amount,
                           r_requestPercent = None, r_status = PENDING, r_refunded = False,
                           r_authenticationToken = [] \<rparr>],
                    balances :=
                      map (\<lambda>x. if bid x = bid b then x\<lparr>b_amount := b_amount x - amount\<rparr> else x)
                        (balances d)\<rparr>))"
  using assms
  by (simp add: subscribeToFund_def transaction_def insert_request_def remove_balance_def Let_def)

theorem subscribeToFund_atomic_witness:
  "subscribeToFund no_faults example_db alice True 1 400 =
     (Ok \<lparr> rid = 4, r_investmentFundId = 1, r_userId = 7, r_type = ''subscription'',
           r_amount = Some 400, r_requestPercent = None, r_status = PENDING,
           r_refunded = False, r_authenticationToken = [] \<rparr>,
      example_db\<lparr>requests := requests example_db @
           [\<lparr> rid = 4, r_investmentFundId = 1, r_userId = 7, r_type = ''subscription'',
              r_amount = Some 400, r_requestPercent = None, r_status = PENDING,
              r_refunded = False, r_authenticationToken = [] \<rparr>],
         balances := [\<lparr> bid = 1, b_userId = 7, b_currencyCode = ''USD'', b_amount = 600 \<rparr>,
                      \<lparr> bid = 2, b_userId = 8, b_currencyCode = ''USD'', b_amount = 20 \<rparr>]\<rparr>) \<and>
   subscribeToFund no_faults example_db alice True 1 2000 = (Throw InsufficientFunds, example_db) \<and>
   subscribeToFund (no_faults\<lparr>insert_fails := True\<rparr>) example_db alice True 1 400 =
     (Throw DatabaseError, example_db)"
proof -
  have f: "find (\<lambda>f. fid f = 1) (funds example_db) = Some growth_fund"
    by (simp add: rows_eval)
  have b: "find (\<lambda>b. b_userId b = uid alice \<and> b_currencyCode b = f_currencyCode growth_fund)
             (balances example_db)
           = Some \<lparr> bid = 1, b_userId = 7, b_currencyCode = ''USD'', b_amount = 1000 \<rparr>"
    by (simp add: rows_eval)
  have t: "twofa alice \<longrightarrow> True"
    by simp
  have i: "fresh_id (requests example_db) = 4"
    by (simp add: fresh_id_def rows_eval)
  show ?thesis
    using subscribeToFund_atomic [OF f b t, of no_faults 400]
      subscribeToFund_atomic [OF f b t, of no_faults 2000]
      subscribeToFund_atomic [OF f b t, of "no_faults\<lparr>insert_fails := True\<rparr>" 400]
    by (simp add: i) (simp add: rows_eval)
qed

lemmas cancel_eval = cancelRequest_def transaction_def update_request_def add_balance_def Let_def
  destructure_def

lemmas getters_eval = isCancelable_spec_def refundable_spec_def isLocked_spec_def

section \<open>Properties of cancelRequest\<close>

lemma cancelRequest_Ok:
  assumes "cancelRequest isCancelable refundable flt d u id' = (Ok (), d')"
  shows "\<exists>r f b.
           find (\<lambda>r. rid r = id' \<and> r_userId r = uid u) (requests d) = Some r \<and>
           find (\<lambda>f. fid f = r_investmentFundId r) (funds d) = Some f \<and>
           find (\<lambda>b. b_userId b = r_userId r \<and> b_currencyCode b = f_currencyCode f) (balances d)
             = Some b \<and>
           isCancelable r (Some f) \<and>
           requests d' =
             map (\<lambda>x. if rid x = id'
                       then x\<lparr>r_status := CANCELED, r_refunded := refundable r (Some f)\<rparr> else x)
               (requests d) \<and>
           (if refundable r (Some f)
            then \<exists>a. r_amount r = Some a \<and>
                   balances d' =
                     map (\<lambda>x. if bid x = bid b then x\<lparr>b_amount := b_amount x + a\<rparr> else x)
                       (balances d)
            else balances d' = balances d) \<and>
           funds d' = funds d \<and> shares d' = shares d \<and> settings d' = settings d"
proof -
  obtain r where r: "find (\<lambda>r. rid r = id' \<and> r_userId r = uid u) (requests d) = Some r"
    using assms by (cases "find (\<lambda>r. rid r = id' \<and> r_userId r = uid u) (requests d)")
      (auto simp: cancel_eval)
  then have rid: "rid r = id'"
    by (auto simp: find_Some_iff)
  have c: "isCancelable r (find (\<lambda>f. fid f = r_investmentFundId r) (funds d))"
    using assms r by (auto simp: cancel_eval split: if_splits)
  obtain f where f: "find (\<lambda>f. fid f = r_investmentFundId r) (funds d) = Some f"
    using assms r c by (cases "find (\<lambda>f. fid f = r_investmentFundId r) (funds d)")
      (auto simp: cancel_eval)
  obtain b where b: "find (\<lambda>b. b_userId b = r_userId r \<and> b_currencyCode b = f_currencyCode f)
      (balances d) = Some b"
    using assms r c f
    by (cases "find (\<lambda>b. b_userId b = r_userId r \<and> b_currencyCode b = f_currencyCode f) (balances d)")
      (auto simp: cancel_eval)
  show ?thesis
    using assms r c f b rid
    by (auto simp: cancel_eval split: if_splits option.splits)
qed

lemma cancelRequest_all_or_nothing:
  assumes "cancelRequest isCancelable refundable flt d u id' = (rep, d')" and "rep \<noteq> Ok ()"
  shows "d' = d"
  using assms
  by (auto simp: cancel_eval split: sum.splits prod.splits if_splits option.splits)

text \<open>
  C3. A cancellation either succeeds or leaves the store as it was. When it succeeds the
  request was found, owned by the user and cancelable; its row now has status
  \<open>CANCELED\<close> and \<open>refunded\<close> equal to its \<open>refundable\<close>; and the balance of the
  request's user in the fund's currency is credited with the request's amount exactly when
  \<open>refundable\<close> is true, in the transaction of the status write: if the credit is
  rejected the status write is rolled back with it.
\<close>

theorem cancelRequest_success:
  assumes "cancelRequest isCancelable refundable flt d u id' = (rep, d')"
  shows "(rep = Ok () \<and>
          (\<exists>r f b.
             find (\<lambda>r. rid r = id' \<and> r_userId r = uid u) (requests d) = Some r \<and>
             find (\<lambda>f. fid f = r_investmentFundId r) (funds d) = Some f \<and>
             find (\<lambda>b. b_userId b = r_userId r \<and> b_currencyCode b = f_currencyCode f) (balances d)
               = Some b \<and>
             isCancelable r (Some f) \<and>
             requests d' =
               map (\<lambda>x. if rid x = id'
                         then x\<lparr>r_status := CANCELED, r_refunded := refundable r (Some f)\<rparr> else x)
                 (requests d) \<and>
             (if refundable r (Some f)
              then \<exists>a. r_amount r = Some a \<and>
                     balances d' =
                       map (\<lambda>x. if bid x = bid b then x\<lparr>b_amount := b_amount x + a\<rparr> else x)
                         (balances d)
              else balances d' = balances d) \<and>
             funds d' = funds d \<and> shares d' = shares d \<and> settings d' = settings d)) \<or>
         (rep \<noteq> Ok () \<and> d' = d)"
proof (cases "rep = Ok ()")
  case True
  with assms cancelRequest_Ok [of isCancelable refundable flt d u id' d'] show ?thesis
    by simp
next
  case False
  with assms cancelRequest_all_or_nothing show ?thesis
    by blast
qed

theorem cancelRequest_success_witness:
  "cancelRequest isCancelable_spec refundable_spec no_faults example_db alice 1 =
     (Ok (),
      example_db\<lparr>requests := [alice_subscription\<lparr>r_status := CANCELED, r_refunded := True\<rparr>,
                               bob_unverified, bob_canceled],
                 balances := [\<lparr> bid = 1, b_userId = 7, b_currencyCode = ''USD'', b_amount = 1400 \<rparr>,
                              \<lparr> bid = 2, b_userId = 8, b_currencyCode = ''USD'', b_amount = 20 \<rparr>]\<rparr>) \<and>
   cancelRequest isCancelable_spec refundable_spec (no_faults\<lparr>credit_fails := True\<rparr>)
       example_db alice 1 =
     (Throw DatabaseError, example_db)"
proof -
  let ?d1 = "example_db\<lparr>requests := [alice_subscription\<lparr>r_status := CANCELED, r_refunded := True\<rparr>,
                               bob_unverified, bob_canceled],
                 balances := [\<lparr> bid = 1, b_userId = 7, b_currencyCode = ''USD'', b_amount = 1400 \<rparr>,
                              \<lparr> bid = 2, b_userId = 8, b_currencyCode = ''USD'', b_amount = 20 \<rparr>]\<rparr>"
  have run: "cancelRequest isCancelable_spec refundable_spec no_faults example_db alice 1 = (Ok (), ?d1)"
    by (simp add: cancel_eval rows_eval getters_eval)
  have fails: "fst (cancelRequest isCancelable_spec refundable_spec (no_faults\<lparr>credit_fails := True\<rparr>)
       example_db alice 1) = Throw DatabaseError"
    by (simp add: cancel_eval rows_eval getters_eval)
  from cancelRequest_success [of isCancelable_spec refundable_spec
      "no_faults\<lparr>credit_fails := True\<rparr>" example_db alice 1 "Throw DatabaseError"
      "snd (cancelRequest isCancelable_spec refundable_spec (no_faults\<lparr>credit_fails := True\<rparr>)
       example_db alice 1)"] fails
  have "cancelRequest isCancelable_spec refundable_spec (no_faults\<lparr>credit_fails := True\<rparr>)
       example_db alice 1 = (Throw DatabaseError, example_db)"
    by (metis prod.collapse reply.distinct(3))
  with run cancelRequest_success [OF run] show ?thesis
    by simp
qed

text \<open>
  C4. A cancellation of a request that is found and is not cancelable throws
  \<^verbatim>\<open>CannotCancelRequest\<close>, the error with the code 48 of its own, and leaves the store,
  and with it the request and the balance, as it was. A request that has been canceled is
  such a request when \<open>isCancelable\<close> holds for \<open>PENDING\<close> requests only: the second
  cancellation fails in this way.
\<close>

theorem cancelRequest_not_cancelable:
  assumes "find (\<lambda>r. rid r = id' \<and> r_userId r = uid u) (requests d) = Some r"
    and "\<not> isCancelable r (find (\<lambda>f. fid f = r_investmentFundId r) (funds d))"
  shows "cancelRequest isCancelable refundable flt d u id' = (Throw CannotCancelRequest, d) \<and>
         code CannotCancelRequest = Some 48"
  using assms by (simp add: cancel_eval)

theorem cancelRequest_not_cancelable_witness:
  "(\<exists>d1. cancelRequest isCancelable_spec refundable_spec no_faults example_db alice 1 = (Ok (), d1) \<and>
      find (\<lambda>r. rid r = 1 \<and> r_userId r = uid alice) (requests d1)
        = Some (alice_subscription\<lparr>r_status := CANCELED, r_refunded := True\<rparr>) \<and>
      cancelRequest isCancelable_spec refundable_spec no_faults d1 alice 1
        = (Throw CannotCancelRequest, d1))"
proof -
  let ?d1 = "example_db\<lparr>requests := [alice_subscription\<lparr>r_status := CANCELED, r_refunded := True\<rparr>,
                               bob_unverified, bob_canceled],
                 balances := [\<lparr> bid = 1, b_userId = 7, b_currencyCode = ''USD'', b_amount = 1400 \<rparr>,
                              \<lparr> bid = 2, b_userId = 8, b_currencyCode = ''USD'', b_amount = 20 \<rparr>]\<rparr>"
  let ?r = "alice_subscription\<lparr>r_status := CANCELED, r_refunded := True\<rparr>"
  have run: "cancelRequest isCancelable_spec refundable_spec no_faults example_db alice 1 = (Ok (), ?d1)"
    by (simp add: cancel_eval rows_eval getters_eval)
  have found: "find (\<lambda>r. rid r = 1 \<and> r_userId r = uid alice) (requests ?d1) = Some ?r"
    by (simp add: rows_eval)
  have no: "\<not> isCancelable_spec ?r (find (\<lambda>f. fid f = r_investmentFundId ?r) (funds ?d1))"
    by (simp add: getters_eval)
  from cancelRequest_not_cancelable
      [where isCancelable = isCancelable_spec and refundable = refundable_spec
         and flt = no_faults, OF found no] run found
  show ?thesis
    by blast
qed

lemma cancelRequest_not_found:
  assumes "find (\<lambda>r. rid r = id' \<and> r_userId r = uid u) (requests d) = None"
  shows "cancelRequest isCancelable refundable flt d u id' =
           (Throw (TypeError ''Cannot destructure property userId''), d)"
  using assms by (simp add: cancel_eval)

text \<open>
  C8. The claim: a cancellation whose id matches no request of the requesting user fails
  with \<open>NotFound\<close> and modifies nothing. The handler has the 404 answer, but it
  destructures the request first, so what it does is throw a \<^verbatim>\<open>TypeError\<close>; the store
  is unchanged. Request 99 does not exist, and request 2 is Bob's, not Alice's.
\<close>

theorem cancelRequest_missing_request_throws:
  "cancelRequest isCancelable_spec refundable_spec no_faults example_db alice 99 =
     (Throw (TypeError ''Cannot destructure property userId''), example_db) \<and>
   cancelRequest isCancelable_spec refundable_spec no_faults example_db alice 2 =
     (Throw (TypeError ''Cannot destructure property userId''), example_db)"
  by (simp add: cancelRequest_not_found rows_eval)

section \<open>Properties of activateRequest\<close>

lemma activateRequest_always_throws:
  "activateRequest d u authenticationToken =
     (Throw (TypeError ''request.$query is not a function''), d)"
  by (simp add: activateRequest_def array_truthy_def)

text \<open>
  C9. The claim: a request goes from \<open>PENDING_EMAIL_VERIFICATION\<close> to \<open>PENDING\<close>
  exactly when the token and the user match, and the handler answers \<open>NotFound\<close>
  otherwise. The handler never updates a request and never answers 404: with Bob's own
  token, which matches his request 2, it throws a \<^verbatim>\<open>TypeError\<close> and the request stays
  as it was, and with a wrong token it throws the same error.
\<close>

theorem activateRequest_matching_token_throws:
  "filter (\<lambda>r. r_userId r = uid bob \<and> r_authenticationToken r = ''tok-b'' \<and>
                r_status r = PENDING_EMAIL_VERIFICATION) (requests example_db) = [bob_unverified] \<and>
   activateRequest example_db bob ''tok-b'' =
     (Throw (TypeError ''request.$query is not a function''), example_db) \<and>
   activateRequest example_db bob ''wrong'' =
     (Throw (TypeError ''request.$query is not a function''), example_db)"
  by (simp add: activateRequest_always_throws) (simp add: rows_eval)



section \<open>Properties of redeemFromFund\<close>

text \<open>
  C5, as stated: when the amount or the percent is supplied, a redemption request is
  inserted in status \<open>PENDING\<close>. With an amount of 10, no request is inserted for a fund
  that does not exist (the answer is 404), nor for a user whose two-factor is required and
  not verified (the answer is 401).
\<close>

theorem redeemFromFund_missing_fund:
  "truthy (Num 10) \<and>
   redeemFromFund digits_column no_faults example_db bob True 99 (Num 10) Undefined =
     (Fail 404 ''Investment fund not found'', example_db) \<and>
   redeemFromFund digits_column no_faults example_db alice False 1 (Num 10) Undefined =
     (Fail 401 ''Unauthorized'', example_db)"
  by (simp add: redeemFromFund_def rows_eval)

lemma redeemFromFund_balances:
  "balances (snd (redeemFromFund column flt d u v id' amount percent)) = balances d"
  by (auto simp: redeemFromFund_def insert_request_def Let_def split: option.splits)

lemma redeemFromFund_ignores_balances:
  "redeemFromFund column flt (d\<lparr>balances := bs\<rparr>) u v id' amount percent =
     (fst (redeemFromFund column flt d u v id' amount percent),
      (snd (redeemFromFund column flt d u v id' amount percent))\<lparr>balances := bs\<rparr>)"
  by (auto simp: redeemFromFund_def insert_request_def Let_def split: option.splits)

text \<open>
  C5, amended. When neither the amount nor the percent is truthy (each is absent,
  \<^verbatim>\<open>null\<close>, \<^verbatim>\<open>false\<close>, the number 0 or the empty string) the handler throws the
  assertion error, which is what the spec calls \<open>InvalidArgument\<close>. When one of them is
  truthy: a missing fund is answered with 404 and nothing is inserted; for an existing fund,
  two-factor that is required and not verified is answered with 401 and nothing is
  inserted; otherwise, when the database accepts both values and the insert, a request of
  type redemption is inserted in status \<open>PENDING\<close>, and when it rejects one of them the
  handler throws and nothing is inserted. In every case the balances are neither modified
  nor read: the outcome is the same whatever the balances are.
\<close>

theorem redeemFromFund_cases:
  "(\<not> truthy amount \<and> \<not> truthy percent \<longrightarrow>
      redeemFromFund column flt d u twofaIsVerified id' amount percent =
        (Throw (AssertionError ''Need amount or percent for a redemption request''), d)) \<and>
   ((truthy amount \<or> truthy percent) \<and> find (\<lambda>f. fid f = id') (funds d) = None \<longrightarrow>
      redeemFromFund column flt d u twofaIsVerified id' amount percent =
        (Fail 404 ''Investment fund not found'', d)) \<and>
   ((truthy amount \<or> truthy percent) \<and> find (\<lambda>f. fid f = id') (funds d) = Some f \<and>
      twofa u \<and> \<not> twofaIsVerified \<longrightarrow>
      redeemFromFund column flt d u twofaIsVerified id' amount percent =
        (Fail 401 ''Unauthorized'', d)) \<and>
   ((truthy amount \<or> truthy percent) \<and> find (\<lambda>f. fid f = id') (funds d) = Some f \<and>
      (twofa u \<longrightarrow> twofaIsVerified) \<and>
      column amount = Some a \<and> column percent = Some p \<and> \<not> insert_fails flt \<longrightarrow>
      redeemFromFund column flt d u twofaIsVerified id' amount percent =
        (Ok \<lparr> rid = fresh_id (requests d), r_investmentFundId = fid f, r_userId = uid u,
               r_type = ''redemption'', r_amount = a, r_requestPercent = p,
               r_status = PENDING, r_refunded = False, r_authenticationToken = [] \<rparr>,
         d\<lparr>requests := requests d @
              [\<lparr> rid = fresh_id (requests d), r_investmentFundId = fid f, r_userId = uid u,
                 r_type = ''redemption'', r_amount = a, r_requestPercent = p,
                 r_status = PENDING, r_refunded = False, r_authenticationToken = [] \<rparr>]\<rparr>)) \<and>
   ((truthy amount \<or> truthy percent) \<and> find (\<lambda>f. fid f = id') (funds d) = Some f \<and>
      (twofa u \<longrightarrow> twofaIsVerified) \<and>
      (column amount = None \<or> column percent = None \<or> insert_fails flt) \<longrightarrow>
      redeemFromFund column flt d u twofaIsVerified id' amount percent =
        (Throw DatabaseError, d)) \<and>
   balances (snd (redeemFromFund column flt d u twofaIsVerified id' amount percent)) = balances d \<and>
   (\<forall>bs. redeemFromFund column flt (d\<lparr>balances := bs\<rparr>) u twofaIsVerified id' amount percent =
      (fst (redeemFromFund column flt d u twofaIsVerified id' amount percent),
       (snd (redeemFromFund column flt d u twofaIsVerified id' amount percent))\<lparr>balances := bs\<rparr>))"
proof (intro conjI impI allI)
  assume "\<not> truthy amount \<and> \<not> truthy percent"
  then show "redeemFromFund column flt d u twofaIsVerified id' amount percent =
        (Throw (AssertionError ''Need amount or percent for a redemption request''), d)"
    by (simp add: redeemFromFund_def)
next
  assume "(truthy amount \<or> truthy percent) \<and> find (\<lambda>f. fid f = id') (funds d) = None"
  then show "redeemFromFund column flt d u twofaIsVerified id' amount percent =
        (Fail 404 ''Investment fund not found'', d)"
    by (auto simp: redeemFromFund_def)
next
  assume "(truthy amount \<or> truthy percent) \<and> find (\<lambda>f. fid f = id') (funds d) = Some f \<and>
      twofa u \<and> \<not> twofaIsVerified"
  then show "redeemFromFund column flt d u twofaIsVerified id' amount percent =
        (Fail 401 ''Unauthorized'', d)"
    by (auto simp: redeemFromFund_def)
next
  assume "(truthy amount \<or> truthy percent) \<and> find (\<lambda>f. fid f = id') (funds d) = Some f \<and>
      (twofa u \<longrightarrow> twofaIsVerified) \<and>
      column amount = Some a \<and> column percent = Some p \<and> \<not> insert_fails flt"
  then show "redeemFromFund column flt d u twofaIsVerified id' amount percent =
        (Ok \<lparr> rid = fresh_id (requests d), r_investmentFundId = fid f, r_userId = uid u,
               r_type = ''redemption'', r_amount = a, r_requestPercent = p,
               r_status = PENDING, r_refunded = False, r_authenticationToken = [] \<rparr>,
         d\<lparr>requests := requests d @
              [\<lparr> rid = fresh_id (requests d), r_investmentFundId = fid f, r_userId = uid u,
                 r_type = ''redemption'', r_amount = a, r_requestPercent = p,
                 r_status = PENDING, r_refunded = False, r_authenticationToken = [] \<rparr>]\<rparr>)"
    by (auto simp: redeemFromFund_def insert_request_def Let_def)
next
  assume "(truthy amount \<or> truthy percent) \<and> find (\<lambda>f. fid f = id') (funds d) = Some f \<and>
      (twofa u \<longrightarrow> twofaIsVerified) \<and>
      (column amount = None \<or> column percent = None \<or> insert_fails flt)"
  then show "redeemFromFund column flt d u twofaIsVerified id' amount percent =
        (Throw DatabaseError, d)"
    by (auto simp: redeemFromFund_def insert_request_def Let_def split: option.splits)
next
  show "balances (snd (redeemFromFund column flt d u twofaIsVerified id' amount percent)) = balances d"
    by (rule redeemFromFund_balances)
next
  fix bs
  show "redeemFromFund column flt (d\<lparr>balances := bs\<rparr>) u twofaIsVerified id' amount percent =
      (fst (redeemFromFund column flt d u twofaIsVerified id' amount percent),
       (snd (redeemFromFund column flt d u twofaIsVerified id' amount percent))\<lparr>balances := bs\<rparr>)"
    by (rule redeemFromFund_ignores_balances)
qed

theorem redeemFromFund_cases_witness:
  "redeemFromFund digits_column no_faults example_db bob True 1 Undefined Undefined =
     (Throw (AssertionError ''Need amount or percent for a redemption request''), example_db) \<and>
   redeemFromFund digits_column no_faults example_db bob True 1 (Num 0) (Str []) =
     (Throw (AssertionError ''Need amount or percent for a redemption request''), example_db) \<and>
   redeemFromFund digits_column no_faults example_db bob True 99 (Str ''0'') Undefined =
     (Fail 404 ''Investment fund not found'', example_db) \<and>
   redeemFromFund digits_column no_faults example_db alice False 1 (Str ''0'') Undefined =
     (Fail 401 ''Unauthorized'', example_db) \<and>
   redeemFromFund digits_column no_faults example_db bob True 1 (Str ''0'') (Num (1 / 2)) =
     (Ok \<lparr> rid = 4, r_investmentFundId = 1, r_userId = 8, r_type = ''redemption'',
            r_amount = Some 0, r_requestPercent = Some (1 / 2), r_status = PENDING,
            r_refunded = False, r_authenticationToken = [] \<rparr>,
      example_db\<lparr>requests := requests example_db @
         [\<lparr> rid = 4, r_investmentFundId = 1, r_userId = 8, r_type = ''redemption'',
            r_amount = Some 0, r_requestPercent = Some (1 / 2), r_status = PENDING,
            r_refunded = False, r_authenticationToken = [] \<rparr>]\<rparr>) \<and>
   redeemFromFund digits_column no_faults example_db bob True 1 (Str ''ten'') Undefined =
     (Throw DatabaseError, example_db)"
proof -
  have f: "find (\<lambda>f. fid f = 1) (funds example_db) = Some growth_fund"
    and nof: "find (\<lambda>f. fid f = 99) (funds example_db) = None"
    by (simp_all add: rows_eval)
  have i: "fresh_id (requests example_db) = 4"
    by (simp add: fresh_id_def rows_eval)
  have t: "\<not> truthy Undefined" "\<not> truthy (Num 0)" "\<not> truthy (Str [])" "truthy (Str ''0'')"
    "truthy (Str ''ten'')"
    by simp_all
  have nf: "\<not> insert_fails no_faults" and tb: "twofa bob \<longrightarrow> True"
    and ta: "twofa alice \<and> \<not> False"
    by (simp_all add: no_faults_def bob_def alice_def)
  have c: "digits_column (Str ''0'') = Some (Some 0)" "digits_column (Num (1 / 2)) = Some (Some (1 / 2))"
    "digits_column (Str ''ten'') = None" "digits_column Undefined = Some None"
    by (simp_all add: digit_value_def)
  note absent = redeemFromFund_cases
    [where amount = Undefined and percent = Undefined and column = digits_column
       and flt = no_faults and d = example_db and u = bob and twofaIsVerified = True
       and id' = 1, THEN conjunct1]
  note zero = redeemFromFund_cases
    [where amount = "Num 0" and percent = "Str []" and column = digits_column
       and flt = no_faults and d = example_db and u = bob and twofaIsVerified = True
       and id' = 1, THEN conjunct1]
  note missing = redeemFromFund_cases
    [where amount = "Str ''0''" and percent = Undefined and column = digits_column
       and flt = no_faults and d = example_db and u = bob and twofaIsVerified = True
       and id' = 99, THEN conjunct2, THEN conjunct1]
  note unverified = redeemFromFund_cases
    [where amount = "Str ''0''" and percent = Undefined and column = digits_column
       and flt = no_faults and d = example_db and u = alice and twofaIsVerified = False
       and id' = 1 and f = growth_fund, THEN conjunct2, THEN conjunct2, THEN conjunct1]
  note inserted = redeemFromFund_cases
    [where amount = "Str ''0''" and percent = "Num (1 / 2)" and column = digits_column
       and flt = no_faults and d = example_db and u = bob and twofaIsVerified = True
       and id' = 1 and f = growth_fund and a = "Some 0" and p = "Some (1 / 2)",
     THEN conjunct2, THEN conjunct2, THEN conjunct2, THEN conjunct1]
  note rejected = redeemFromFund_cases
    [where amount = "Str ''ten''" and percent = Undefined and column = digits_column
       and flt = no_faults and d = example_db and u = bob and twofaIsVerified = True
       and id' = 1 and f = growth_fund,
     THEN conjunct2, THEN conjunct2, THEN conjunct2, THEN conjunct2, THEN conjunct1]
  have r1: "redeemFromFund digits_column no_faults example_db bob True 1 Undefined Undefined =
     (Throw (AssertionError ''Need amount or percent for a redemption request''), example_db)"
    using absent t(1) by blast
  have r2: "redeemFromFund digits_column no_faults example_db bob True 1 (Num 0) (Str []) =
     (Throw (AssertionError ''Need amount or percent for a redemption request''), example_db)"
    using zero t(2,3) by blast
  have r3: "redeemFromFund digits_column no_faults example_db bob True 99 (Str ''0'') Undefined =
     (Fail 404 ''Investment fund not found'', example_db)"
    using missing t(4) nof by blast
  have r4: "redeemFromFund digits_column no_faults example_db alice False 1 (Str ''0'') Undefined =
     (Fail 401 ''Unauthorized'', example_db)"
    using unverified t(4) f ta by blast
  have r5: "redeemFromFund digits_column no_faults example_db bob True 1 (Str ''0'') (Num (1 / 2)) =
        (Ok \<lparr> rid = fresh_id (requests example_db), r_investmentFundId = fid growth_fund,
               r_userId = uid bob,
               r_type = ''redemption'', r_amount = Some 0, r_requestPercent = Some (1 / 2),
               r_status = PENDING, r_refunded = False, r_authenticationToken = [] \<rparr>,
         example_db\<lparr>requests := requests example_db @
              [\<lparr> rid = fresh_id (requests example_db), r_investmentFundId = fid growth_fund,
                 r_userId = uid bob,
                 r_type = ''redemption'', r_amount = Some 0, r_requestPercent = Some (1 / 2),
                 r_status = PENDING, r_refunded = False, r_authenticationToken = [] \<rparr>]\<rparr>)"
    using inserted t(4) f nf tb c(1,2) by blast
  have r6: "redeemFromFund digits_column no_faults example_db bob True 1 (Str ''ten'') Undefined =
     (Throw DatabaseError, example_db)"
    using rejected t(5) f tb c(3) by blast
  have ids: "fid growth_fund = 1" "uid bob = 8"
    by (simp_all add: growth_fund_def bob_def)
  show ?thesis
    unfolding r1 r2 r3 r4 r5 r6 i ids by simp
qed

section \<open>Properties of patchInvestmentFundRequest\<close>

text \<open>
  C6, as stated: a patch whose request type and target status are not one of the four
  combinations fails with \<open>InvalidArgument\<close>. Request 3 is a canceled subscription and
  the target status is \<open>PENDING\<close>; the request is locked, and the handler throws
  \<^verbatim>\<open>CannotPatchRequest\<close> before it looks at the combination.
\<close>

theorem patch_locked_request:
  "r_type bob_canceled = ''subscription'' \<and>
   patchInvestmentFundRequest isLocked_spec idle_ledger example_db 3 PENDING =
     (Throw CannotPatchRequest, example_db)"
  by (simp add: patchInvestmentFundRequest_def rows_eval getters_eval)

text \<open>
  C6, amended: for a request that is found, a patch whose request type and target status
  are not one of the four combinations dispatches no ledger movement (the outcome does not
  depend on the ledger and the store is unchanged): it throws \<^verbatim>\<open>CannotPatchRequest\<close>
  when the request is locked, and otherwise the error
  \<^verbatim>\<open>Unknown investment fund request operation\<close>, which is what the spec calls
  \<open>InvalidArgument\<close>.
\<close>

theorem patch_unknown_operation:
  assumes "find (\<lambda>f. \<exists>r \<in> set (requests d). r_investmentFundId r = fid f \<and> rid r = id')
             (funds d) = Some f"
    and "filter (\<lambda>r. r_investmentFundId r = fid f \<and> rid r = id') (requests d)
         = fundRequest # rest"
    and "\<not> ((r_type fundRequest = ''subscription'' \<or> r_type fundRequest = ''redemption'') \<and>
            (status = APPROVED \<or> status = DECLINED))"
  shows "patchInvestmentFundRequest isLocked m d id' status =
           (if isLocked fundRequest then (Throw CannotPatchRequest, d)
            else (Throw (Error ''Unknown investment fund request operation''), d))"
proof -
  have "patchInvestmentFundRequest isLocked m d id' status =
          (if isLocked fundRequest then (Throw CannotPatchRequest, d)
           else if r_type fundRequest = ''subscription'' \<and> status = APPROVED
             then await d (approveSubscription m f fundRequest d)
           else if r_type fundRequest = ''subscription'' \<and> status = DECLINED
             then await d (declineSubscription m f fundRequest d)
           else if r_type fundRequest = ''redemption'' \<and> status = APPROVED
             then await d (approveRedemption m f fundRequest d)
           else if r_type fundRequest = ''redemption'' \<and> status = DECLINED
             then await d (declineRedemption m f fundRequest d)
           else (Throw (Error ''Unknown investment fund request operation''), d))"
  proof -
    have "fundRequest \<in> set (filter (\<lambda>r. r_investmentFundId r = fid f \<and> rid r = id') (requests d))"
      unfolding assms(2) by simp
    then have "rid fundRequest = id'"
      by simp
    then have "filter (\<lambda>r. rid r = id') (fundRequest # rest)
                 = fundRequest # filter (\<lambda>r. rid r = id') rest"
      by simp
    then show ?thesis
      unfolding patchInvestmentFundRequest_def Let_def
      by (simp only: assms(1,2) option.case list.case list.size) simp
  qed
  also have "\<dots> = (if isLocked fundRequest then (Throw CannotPatchRequest, d)
            else (Throw (Error ''Unknown investment fund request operation''), d))"
    using assms(3) by (cases status) auto
  finally show ?thesis .
qed

theorem patch_unknown_operation_witness:
  "patchInvestmentFundRequest isLocked_spec idle_ledger example_db 1 CANCELED =
     (Throw (Error ''Unknown investment fund request operation''), example_db) \<and>
   patchInvestmentFundRequest isLocked_spec idle_ledger
       (example_db\<lparr>requests := [alice_subscription\<lparr>r_type := ''transfer''\<rparr>]\<rparr>) 1 APPROVED =
     (Throw (Error ''Unknown investment fund request operation''),
      example_db\<lparr>requests := [alice_subscription\<lparr>r_type := ''transfer''\<rparr>]\<rparr>)"
proof -
  let ?d = "example_db\<lparr>requests := [alice_subscription\<lparr>r_type := ''transfer''\<rparr>]\<rparr>"
  have f: "find (\<lambda>f. \<exists>r \<in> set (requests example_db). r_investmentFundId r = fid f \<and> rid r = 1)
             (funds example_db) = Some growth_fund"
    by (simp add: rows_eval)
  have r: "filter (\<lambda>r. r_investmentFundId r = fid growth_fund \<and> rid r = 1) (requests example_db)
         = alice_subscription # []"
    by (simp add: rows_eval)
  have n: "\<not> ((r_type alice_subscription = ''subscription'' \<or>
               r_type alice_subscription = ''redemption'') \<and>
              (CANCELED = APPROVED \<or> CANCELED = DECLINED))"
    by simp
  have f': "find (\<lambda>f. \<exists>r \<in> set (requests ?d). r_investmentFundId r = fid f \<and> rid r = 1)
             (funds ?d) = Some growth_fund"
    by (simp add: rows_eval)
  have r': "filter (\<lambda>r. r_investmentFundId r = fid growth_fund \<and> rid r = 1) (requests ?d)
         = alice_subscription\<lparr>r_type := ''transfer''\<rparr> # []"
    by (simp add: rows_eval)
  have n': "\<not> ((r_type (alice_subscription\<lparr>r_type := ''transfer''\<rparr>) = ''subscription'' \<or>
               r_type (alice_subscription\<lparr>r_type := ''transfer''\<rparr>) = ''redemption'') \<and>
              (APPROVED = APPROVED \<or> APPROVED = DECLINED))"
    by simp
  have l: "\<not> isLocked_spec alice_subscription"
    "\<not> isLocked_spec (alice_subscription\<lparr>r_type := ''transfer''\<rparr>)"
    by (simp_all add: getters_eval alice_subscription_def)
  have a: "patchInvestmentFundRequest isLocked_spec idle_ledger example_db 1 CANCELED =
     (Throw (Error ''Unknown investment fund request operation''), example_db)"
    using patch_unknown_operation [OF f r n, where isLocked = isLocked_spec and m = idle_ledger]
    by (simp only: l if_False)
  have b: "patchInvestmentFundRequest isLocked_spec idle_ledger ?d 1 APPROVED =
     (Throw (Error ''Unknown investment fund request operation''), ?d)"
    using patch_unknown_operation [OF f' r' n', where isLocked = isLocked_spec and m = idle_ledger]
    by (simp only: l if_False)
  from a b show ?thesis
    by (rule conjI)
qed

end
